theory Spec2Isabelle
  imports Main "HOL-Library.Sublist"
begin

section \<open>The Routine constructor of CLBlast: kernel compilation and the two caches\<close>

text \<open>
  The development embeds \<^verbatim>\<open>Routine::Routine\<close> of \<^verbatim>\<open>src/routine.cpp\<close>. The constructor
  does all the work of obtaining a program for a routine: it consults the program cache
  (per context), then the binary cache (per device), and compiles the kernel source.
  Exceptions of the C++ code are values of the type \<open>error\<close>; the caches and the log of
  calls to the collaborators (OpenCL back end, environment, tuning database) are passed
  explicitly as a state.
\<close>

subsection \<open>Data\<close>

text \<open>The precisions of the library (the enum class \<^verbatim>\<open>Precision\<close>).\<close>

datatype Precision = kHalf | kSingle | kDouble | kComplexSingle | kComplexDouble

text \<open>The status codes thrown by the constructor itself.\<close>

datatype StatusCode = kNoDoublePrecision | kNoHalfPrecision

text \<open>
  An exception leaving the constructor: a \<^verbatim>\<open>RuntimeErrorCode\<close> thrown by the capability
  check, or a \<^verbatim>\<open>CLError\<close> of the OpenCL wrapper carrying the OpenCL status.
\<close>

datatype error = RuntimeErrorCode StatusCode | CLError int

text \<open>
  What the constructor asks of a \<^verbatim>\<open>Device\<close>: \<^verbatim>\<open>Name()\<close>, \<^verbatim>\<open>Capabilities()\<close> (the extension
  string), \<^verbatim>\<open>IsAMD()\<close>, \<^verbatim>\<open>IsARM()\<close> and \<^verbatim>\<open>IsGPU()\<close>.
\<close>

record Device =
  Name :: string
  Capabilities :: string
  IsAMD :: bool
  IsARM :: bool
  IsGPU :: bool

text \<open>
  An OpenCL program object, kept symbolically: created from a source text in a context,
  created from a binary for a device in a context, or the result of a successful
  \<^verbatim>\<open>Build\<close> of a program for a device with a list of options.
\<close>

datatype Program =
    ProgramFromSource nat string
  | ProgramFromBinary Device nat string
  | Built Program Device "string list"

text \<open>
  The arguments of the constructor. The queue gives the context and the device; the
  defines text is what \<^verbatim>\<open>db_.GetDefines()\<close> returns for the database built from the queue,
  the routine variants, the precision and the user database; \<open>source\<close> is the
  initializer list of routine-specific source fragments.
\<close>

record request =
  queue_context :: nat
  queue_device :: Device
  routine_name :: string
  precision :: Precision
  db_defines :: string
  source :: "string list"

text \<open>
  What the translation unit takes from outside \<^verbatim>\<open>routine.cpp\<close>: the value of the
  environment variable \<^verbatim>\<open>CLBLAST_BUILD_OPTIONS\<close> (\<open>None\<close> for a null pointer), the two
  extension-name constants, the integer value of each precision
  (\<^verbatim>\<open>static_cast<int>(precision_)\<close>) and the text of \<^verbatim>\<open>kernels/common.opencl\<close>.
\<close>

record environment =
  CLBLAST_BUILD_OPTIONS :: "string option"
  kKhronosDoublePrecision :: string
  kKhronosHalfPrecision :: string
  precision_int :: "Precision \<Rightarrow> int"
  common_opencl :: string

text \<open>
  The OpenCL back end decides the status of each call: of creating a program from a
  source text (\<^verbatim>\<open>clCreateProgramWithSource\<close>) or from a binary
  (\<^verbatim>\<open>clCreateProgramWithBinary\<close>), and of building a program; it gives the intermediate
  representation of a built program (\<^verbatim>\<open>GetIR\<close>). The status \<open>0\<close> is \<^verbatim>\<open>CL_SUCCESS\<close>; any
  other status is thrown as a \<^verbatim>\<open>CLError\<close>.
\<close>

record backend =
  create_with_source_status :: "nat \<Rightarrow> string \<Rightarrow> int"
  create_with_binary_status :: "Device \<Rightarrow> nat \<Rightarrow> string \<Rightarrow> int"
  build_status :: "Program \<Rightarrow> Device \<Rightarrow> string list \<Rightarrow> int"
  GetIR :: "Program \<Rightarrow> string"

definition CL_SUCCESS :: int where
  "CL_SUCCESS = 0"

definition CL_BUILD_PROGRAM_FAILURE :: int where
  "CL_BUILD_PROGRAM_FAILURE = - 11"

text \<open>
  The calls the constructor makes to its collaborators, logged in the order of the code.
\<close>

datatype call =
    Getenv
  | CreateProgramWithBinary Device nat string
  | CreateProgramWithSource nat string
  | Build Program Device "string list"
  | QueryCapabilities
  | GetDefines
  | PrintBuildInfo
  | QueryIR Program
  | StoreBinary string string Precision string
  | StoreProgram Program nat Precision string

type_synonym BinaryKey = "string \<times> Precision \<times> string"
type_synonym ProgramKey = "nat \<times> Precision \<times> string"

record state =
  binary_cache :: "BinaryKey \<rightharpoonup> string"
  program_cache :: "ProgramKey \<rightharpoonup> Program"
  calls :: "call list"

subsection \<open>The caches\<close>

text \<open>
  Modelled from the spec: the cache functions \<^verbatim>\<open>ProgramIsInCache\<close>, \<^verbatim>\<open>BinaryIsInCache\<close>,
  \<^verbatim>\<open>GetBinaryFromCache\<close>, \<^verbatim>\<open>StoreBinaryToCache\<close> and \<^verbatim>\<open>StoreProgramToCache\<close> are declared
  outside \<^verbatim>\<open>routine.cpp\<close>. Section 4.3 of the specification describes two associative
  stores with \<open>lookup\<close> and \<open>storeIfAbsent\<close>: the first entry stored for a key wins, a
  later one for the same key is discarded, and nothing is ever removed.
\<close>

definition storeIfAbsent :: "('k \<rightharpoonup> 'v) \<Rightarrow> 'k \<Rightarrow> 'v \<Rightarrow> ('k \<rightharpoonup> 'v)" where
  "storeIfAbsent m k v = (case m k of None \<Rightarrow> m(k \<mapsto> v) | Some _ \<Rightarrow> m)"

definition ProgramIsInCache :: "state \<Rightarrow> nat \<Rightarrow> Precision \<Rightarrow> string \<Rightarrow> bool" where
  "ProgramIsInCache s c p n = (program_cache s (c, p, n) \<noteq> None)"

definition BinaryIsInCache :: "state \<Rightarrow> string \<Rightarrow> Precision \<Rightarrow> string \<Rightarrow> bool" where
  "BinaryIsInCache s d p n = (binary_cache s (d, p, n) \<noteq> None)"

definition GetBinaryFromCache :: "state \<Rightarrow> string \<Rightarrow> Precision \<Rightarrow> string \<Rightarrow> string option" where
  "GetBinaryFromCache s d p n = binary_cache s (d, p, n)"

definition record_call :: "call \<Rightarrow> state \<Rightarrow> state" where
  "record_call c s = s\<lparr>calls := calls s @ [c]\<rparr>"

definition StoreBinaryToCache :: "string \<Rightarrow> string \<Rightarrow> Precision \<Rightarrow> string \<Rightarrow> state \<Rightarrow> state" where
  "StoreBinaryToCache b d p n s =
     record_call (StoreBinary b d p n)
       (s\<lparr>binary_cache := storeIfAbsent (binary_cache s) (d, p, n) b\<rparr>)"

definition StoreProgramToCache :: "Program \<Rightarrow> nat \<Rightarrow> Precision \<Rightarrow> string \<Rightarrow> state \<Rightarrow> state" where
  "StoreProgramToCache prog c p n s =
     record_call (StoreProgram prog c p n)
       (s\<lparr>program_cache := storeIfAbsent (program_cache s) (c, p, n) prog\<rparr>)"

subsection \<open>The stages of the constructor\<close>

text \<open>
  Modelled from the spec: \<^verbatim>\<open>ToString\<close> is a helper declared outside \<^verbatim>\<open>routine.cpp\<close>; the
  specification asks for a define carrying the precision's number, so \<open>ToString\<close> writes
  an integer in decimal, with a minus sign when negative.
\<close>

fun nat_digits :: "nat \<Rightarrow> string" where
  "nat_digits n =
     (if n < 10 then [''0123456789'' ! n]
      else nat_digits (n div 10) @ [''0123456789'' ! (n mod 10)])"

declare nat_digits.simps [simp del]

definition ToString :: "int \<Rightarrow> string" where
  "ToString i = (if i < 0 then CHR ''-'' # nat_digits (nat (- i)) else nat_digits (nat i))"

text \<open>
  Lines 41 to 46: the build options are empty unless the environment variable is set, in
  which case they hold its value as their only element.
\<close>

definition build_options :: "environment \<Rightarrow> string list" where
  "build_options env =
     (case CLBLAST_BUILD_OPTIONS env of None \<Rightarrow> [] | Some v \<Rightarrow> [] @ [v])"

text \<open>
  \<^verbatim>\<open>program.Build(device, options)\<close>: the call is logged; a status other than
  \<^verbatim>\<open>CL_SUCCESS\<close> is thrown, otherwise the program is built.
\<close>

definition Build_program ::
  "backend \<Rightarrow> Program \<Rightarrow> Device \<Rightarrow> string list \<Rightarrow> state \<Rightarrow> (error + Program) \<times> state" where
  "Build_program be prog dev opts s =
     (let s1 = record_call (Build prog dev opts) s;
          st = build_status be prog dev opts
      in if st \<noteq> CL_SUCCESS then (Inl (CLError st), s1)
         else (Inr (Built prog dev opts), s1))"

text \<open>
  Lines 51 to 54, the body of the branch taken when the binary is in the cache: the
  binary is read from the cache, a program is created from it for the device and the
  context, built with the options, and stored in the program cache. Neither call is
  guarded, so a \<^verbatim>\<open>CLError\<close> leaves the constructor.
\<close>

definition build_from_cached_binary ::
  "backend \<Rightarrow> request \<Rightarrow> string list \<Rightarrow> string \<Rightarrow> state \<Rightarrow> (error + unit) \<times> state" where
  "build_from_cached_binary be rq opts binary s =
     (let dev = queue_device rq; ctx = queue_context rq;
          s1 = record_call (CreateProgramWithBinary dev ctx binary) s;
          st = create_with_binary_status be dev ctx binary
      in if st \<noteq> CL_SUCCESS then (Inl (CLError st), s1)
         else (case Build_program be (ProgramFromBinary dev ctx binary) dev opts s1 of
                 (Inl e, s2) \<Rightarrow> (Inl e, s2)
               | (Inr program, s2) \<Rightarrow>
                   (Inr (), StoreProgramToCache program ctx (precision rq) (routine_name rq) s2)))"

text \<open>
  \<^verbatim>\<open>extensions.find(token) == std::string::npos\<close>: the token occurs nowhere in the
  extension string as a contiguous substring.
\<close>

definition not_found :: "string \<Rightarrow> string \<Rightarrow> bool" where
  "not_found extensions token = (\<not> sublist token extensions)"

text \<open>Lines 60 to 73: the capability check.\<close>

definition check_capabilities :: "environment \<Rightarrow> request \<Rightarrow> state \<Rightarrow> (error + unit) \<times> state" where
  "check_capabilities env rq s =
     (let s1 = record_call QueryCapabilities s;
          extensions = Capabilities (queue_device rq)
      in if (precision rq = kDouble \<or> precision rq = kComplexDouble)
            \<and> not_found extensions (kKhronosDoublePrecision env)
         then (Inl (RuntimeErrorCode kNoDoublePrecision), s1)
         else if precision rq = kHalf \<and> not_found extensions (kKhronosHalfPrecision env)
         then (Inl (RuntimeErrorCode kNoHalfPrecision), s1)
         else (Inr (), s1))"

text \<open>
  Lines 75 to 107: the source string. It starts as the defines of the database and is
  extended statement by statement; the loop over the fragments is a left fold.
\<close>

definition assemble_source :: "environment \<Rightarrow> request \<Rightarrow> string" where
  "assemble_source env rq =
     (let dev = queue_device rq;
          source_string = db_defines rq;
          source_string = source_string @
            (''#define PRECISION '' @ ToString (precision_int env (precision rq)) @ [CHR 0x0A]);
          source_string = source_string @
            (''#define ROUTINE_'' @ routine_name rq @ [CHR 0x0A]);
          source_string = (if IsAMD dev \<and> IsGPU dev
                           then source_string @ (''#define USE_CL_MAD 1'' @ [CHR 0x0A])
                           else source_string);
          source_string = (if IsAMD dev \<and> IsGPU dev
                           then source_string @ (''#define USE_STAGGERED_INDICES 1'' @ [CHR 0x0A])
                           else source_string);
          source_string = (if IsARM dev \<and> IsGPU dev
                           then source_string @ (''#define GLOBAL_MEM_FENCE 1'' @ [CHR 0x0A])
                           else source_string);
          source_string = source_string @ common_opencl env
      in foldl (\<lambda>acc s. acc @ s) source_string (source rq))"

text \<open>
  Lines 116 to 131: a program is created from the source string and built; a build
  failure prints the build log when the status is \<^verbatim>\<open>CL_BUILD_PROGRAM_FAILURE\<close> and is
  thrown again. After a successful build the binary and then the program are stored.
\<close>

definition compile_and_store ::
  "backend \<Rightarrow> request \<Rightarrow> string list \<Rightarrow> string \<Rightarrow> state \<Rightarrow> (error + unit) \<times> state" where
  "compile_and_store be rq opts source_string s =
     (let dev = queue_device rq; ctx = queue_context rq;
          s1 = record_call (CreateProgramWithSource ctx source_string) s;
          st = create_with_source_status be ctx source_string
      in if st \<noteq> CL_SUCCESS then (Inl (CLError st), s1)
         else (case Build_program be (ProgramFromSource ctx source_string) dev opts s1 of
                 (Inl (CLError e), s2) \<Rightarrow>
                   (Inl (CLError e),
                    if e = CL_BUILD_PROGRAM_FAILURE then record_call PrintBuildInfo s2 else s2)
               | (Inl e, s2) \<Rightarrow> (Inl e, s2)
               | (Inr program, s2) \<Rightarrow>
                   (let s3 = record_call (QueryIR program) s2;
                        binary = GetIR be program;
                        s4 = StoreBinaryToCache binary (Name dev) (precision rq) (routine_name rq) s3;
                        s5 = StoreProgramToCache program ctx (precision rq) (routine_name rq) s4
                    in (Inr (), s5))))"

text \<open>
  Lines 57 to 131, everything after the binary-cache branch: the capability check, the
  assembly of the source and the compilation.
\<close>

definition compile_kernel ::
  "environment \<Rightarrow> backend \<Rightarrow> request \<Rightarrow> string list \<Rightarrow> state \<Rightarrow> (error + unit) \<times> state" where
  "compile_kernel env be rq opts s =
     (case check_capabilities env rq s of
        (Inl e, s1) \<Rightarrow> (Inl e, s1)
      | (Inr u, s1) \<Rightarrow>
          compile_and_store be rq opts (assemble_source env rq) (record_call GetDefines s1))"

text \<open>
  Lines 48 to 55: the branch for a binary found in the cache. It ends by falling out of
  the \<^verbatim>\<open>if\<close> block, so on success its result is the state the rest of the constructor
  continues with. The lookup cannot miss after \<open>BinaryIsInCache\<close> has answered yes.
\<close>

definition binary_cache_branch ::
  "backend \<Rightarrow> request \<Rightarrow> string list \<Rightarrow> state \<Rightarrow> (error + unit) \<times> state" where
  "binary_cache_branch be rq opts s =
     (let device_name = Name (queue_device rq); p = precision rq; n = routine_name rq
      in if BinaryIsInCache s device_name p n
         then (case GetBinaryFromCache s device_name p n of
                 Some binary \<Rightarrow> build_from_cached_binary be rq opts binary s
               | None \<Rightarrow> (Inr (), s))
         else (Inr (), s))"

text \<open>
  The constructor. A program found in the program cache ends it at once (line 39).
  Otherwise the options are read and the binary-cache branch runs; as that branch has no
  \<^verbatim>\<open>return\<close>, control continues after it with the rest of the constructor, exactly as
  when the binary is not in the cache.
\<close>

definition Routine ::
  "environment \<Rightarrow> backend \<Rightarrow> request \<Rightarrow> state \<Rightarrow> (error + unit) \<times> state" where
  "Routine env be rq s =
     (if ProgramIsInCache s (queue_context rq) (precision rq) (routine_name rq)
      then (Inr (), s)
      else
        (let s1 = record_call Getenv s;
             options = build_options env
         in case binary_cache_branch be rq options s1 of
              (Inl e, s2) \<Rightarrow> (Inl e, s2)
            | (Inr u, s2) \<Rightarrow> compile_kernel env be rq options s2))"

text \<open>The calls logged by one run of the constructor, without those logged before it.\<close>

definition new_calls :: "environment \<Rightarrow> backend \<Rightarrow> request \<Rightarrow> state \<Rightarrow> call list" where
  "new_calls env be rq s = drop (length (calls s)) (calls (snd (Routine env be rq s)))"

subsection \<open>Notions used by the properties\<close>

text \<open>
  The two status codes of the capability check are the ways a request fails for an
  unsupported precision; a \<^verbatim>\<open>CLError\<close> is a failure of compiling or building.
\<close>

fun UnsupportedPrecision :: "error \<Rightarrow> bool" where
  "UnsupportedPrecision (RuntimeErrorCode kNoDoublePrecision) = True"
| "UnsupportedPrecision (RuntimeErrorCode kNoHalfPrecision) = True"
| "UnsupportedPrecision (CLError st) = False"

text \<open>
  The test of the code: the extension string of the device does not contain, as a
  substring, the token its precision needs: the double-precision token for double and
  complex-double, the half-precision token for half.
\<close>

definition lacks_required_extension :: "environment \<Rightarrow> request \<Rightarrow> bool" where
  "lacks_required_extension env rq =
     (((precision rq = kDouble \<or> precision rq = kComplexDouble)
        \<and> \<not> sublist (kKhronosDoublePrecision env) (Capabilities (queue_device rq)))
      \<or> (precision rq = kHalf
        \<and> \<not> sublist (kKhronosHalfPrecision env) (Capabilities (queue_device rq))))"




text \<open>Counting the compilations (programs created from source) and the builds in a log.\<close>

fun is_compile :: "call \<Rightarrow> bool" where
  "is_compile (CreateProgramWithSource c src) = True"
| "is_compile other = False"

fun is_build :: "call \<Rightarrow> bool" where
  "is_build (Build prog dev opts) = True"
| "is_build other = False"


definition compile_calls :: "call list \<Rightarrow> nat" where
  "compile_calls cs = length (filter is_compile cs)"

definition build_calls :: "call list \<Rightarrow> nat" where
  "build_calls cs = length (filter is_build cs)"

text \<open>
  The program the constructor compiles on the cold path: created from the assembled
  source in the context of the queue and built for its device with the build options.
\<close>

definition compiled_program :: "environment \<Rightarrow> request \<Rightarrow> Program" where
  "compiled_program env rq =
     Built (ProgramFromSource (queue_context rq) (assemble_source env rq))
       (queue_device rq) (build_options env)"

text \<open>
  The caches as they stand after a part of a log: each store call acts on its cache, in
  the order of the log, and no other call touches a cache.
\<close>

fun caches_after ::
  "call list \<Rightarrow> (BinaryKey \<rightharpoonup> string) \<times> (ProgramKey \<rightharpoonup> Program) \<Rightarrow>
     (BinaryKey \<rightharpoonup> string) \<times> (ProgramKey \<rightharpoonup> Program)" where
  "caches_after [] cs = cs"
| "caches_after (StoreBinary b d p n # l) (bc, pc) =
     caches_after l (storeIfAbsent bc (d, p, n) b, pc)"
| "caches_after (StoreProgram prog c p n # l) (bc, pc) =
     caches_after l (bc, storeIfAbsent pc (c, p, n) prog)"
| "caches_after (other # l) cs = caches_after l cs"

text \<open>
  The assembled source in the words of the specification: the six parts, concatenated in
  their fixed order. The device-quirk part holds the fast multiply-add flag and the
  staggered-index flag for an AMD GPU and the global-memory-fence flag for an ARM GPU.
\<close>

definition precision_define :: "environment \<Rightarrow> request \<Rightarrow> string" where
  "precision_define env rq =
     ''#define PRECISION '' @ ToString (precision_int env (precision rq)) @ [CHR 0x0A]"

definition routine_define :: "request \<Rightarrow> string" where
  "routine_define rq = ''#define ROUTINE_'' @ routine_name rq @ [CHR 0x0A]"

definition mad_define :: string where
  "mad_define = ''#define USE_CL_MAD 1'' @ [CHR 0x0A]"

definition staggered_define :: string where
  "staggered_define = ''#define USE_STAGGERED_INDICES 1'' @ [CHR 0x0A]"

definition fence_define :: string where
  "fence_define = ''#define GLOBAL_MEM_FENCE 1'' @ [CHR 0x0A]"

definition device_quirk_defines :: "Device \<Rightarrow> string" where
  "device_quirk_defines dev =
     (if IsAMD dev \<and> IsGPU dev then mad_define @ staggered_define else [])
     @ (if IsARM dev \<and> IsGPU dev then fence_define else [])"

definition source_in_spec_order :: "environment \<Rightarrow> request \<Rightarrow> string" where
  "source_in_spec_order env rq =
     concat [db_defines rq, precision_define env rq, routine_define rq,
             device_quirk_defines (queue_device rq), common_opencl env, concat (source rq)]"

text \<open>
  The part of the assembled source that lies after the database defines, the precision
  define and the routine define, and before the common header and the fragments: what
  the assembler itself adds for the device.
\<close>

definition quirk_section :: "environment \<Rightarrow> request \<Rightarrow> string" where
  "quirk_section env rq =
     (let src = assemble_source env rq;
          n_before = length (db_defines rq) + length (precision_define env rq)
                   + length (routine_define rq);
          n_after = length (common_opencl env) + length (concat (source rq))
      in take (length src - n_before - n_after) (drop n_before src))"

subsection \<open>Example inputs\<close>

text \<open>
  A generic GPU without extensions and without quirks, an AMD GPU, a back end on which
  every call succeeds, one on which every build fails, and requests for the routine GEMM.
\<close>

definition generic_gpu :: Device where
  "generic_gpu = \<lparr>Name = ''GenericGPU'', Capabilities = [], IsAMD = False, IsARM = False,
                  IsGPU = True\<rparr>"

definition amd_gpu :: Device where
  "amd_gpu = \<lparr>Name = ''Fiji'', Capabilities = ''cl_khr_fp64 cl_khr_fp16'', IsAMD = True,
              IsARM = False, IsGPU = True\<rparr>"

definition example_env :: environment where
  "example_env = \<lparr>CLBLAST_BUILD_OPTIONS = None, kKhronosDoublePrecision = ''cl_khr_fp64'',
                  kKhronosHalfPrecision = ''cl_khr_fp16'',
                  precision_int = (\<lambda>p. case p of kHalf \<Rightarrow> 16 | kSingle \<Rightarrow> 32 | kDouble \<Rightarrow> 64
                                     | kComplexSingle \<Rightarrow> 3232 | kComplexDouble \<Rightarrow> 6464),
                  common_opencl = ''H;''\<rparr>"

definition backend_ok :: backend where
  "backend_ok = \<lparr>create_with_source_status = (\<lambda>c src. 0),
                 create_with_binary_status = (\<lambda>d c b. 0),
                 build_status = (\<lambda>prog d opts. 0),
                 GetIR = (\<lambda>prog. ''IR'')\<rparr>"

definition backend_build_fails :: backend where
  "backend_build_fails = \<lparr>create_with_source_status = (\<lambda>c src. 0),
                          create_with_binary_status = (\<lambda>d c b. 0),
                          build_status = (\<lambda>prog d opts. - 11),
                          GetIR = (\<lambda>prog. ''IR'')\<rparr>"

definition gemm_request :: "nat \<Rightarrow> Device \<Rightarrow> Precision \<Rightarrow> request" where
  "gemm_request c dev p =
     \<lparr>queue_context = c, queue_device = dev, routine_name = ''GEMM'', precision = p,
      db_defines = ''D;'', source = [''a;'', ''b;'']\<rparr>"

definition empty_state :: state where
  "empty_state = \<lparr>binary_cache = Map.empty, program_cache = Map.empty, calls = []\<rparr>"

text \<open>
  A state in which the binary of single-precision GEMM for the generic GPU is cached and
  no program is, and one in which a program for context 1 is cached as well.
\<close>

definition state_with_binary :: state where
  "state_with_binary =
     \<lparr>binary_cache = [(''GenericGPU'', kSingle, ''GEMM'') \<mapsto> ''IR''],
      program_cache = Map.empty, calls = []\<rparr>"

definition state_with_program :: state where
  "state_with_program =
     \<lparr>binary_cache = [(''GenericGPU'', kSingle, ''GEMM'') \<mapsto> ''IR''],
      program_cache = [(1, kSingle, ''GEMM'') \<mapsto>
         Built (ProgramFromBinary generic_gpu 1 ''IR'') generic_gpu []],
      calls = [Getenv]\<rparr>"

text \<open>
  A back end on which building a program created from source fails while building one
  created from a binary succeeds; a second device that differs from the generic GPU in
  its name and its extensions only; an environment with a build option set.
\<close>

definition backend_source_build_fails :: backend where
  "backend_source_build_fails =
     \<lparr>create_with_source_status = (\<lambda>c src. 0),
      create_with_binary_status = (\<lambda>d c b. 0),
      build_status = (\<lambda>prog d opts. case prog of ProgramFromSource c src \<Rightarrow> - 11 | _ \<Rightarrow> 0),
      GetIR = (\<lambda>prog. ''IR'')\<rparr>"

definition other_gpu :: Device where
  "other_gpu = \<lparr>Name = ''OtherGPU'', Capabilities = ''cl_khr_fp64'', IsAMD = False,
                IsARM = False, IsGPU = True\<rparr>"

definition env_with_options :: environment where
  "env_with_options = example_env\<lparr>CLBLAST_BUILD_OPTIONS := Some ''-cl-fast-relaxed-math''\<rparr>"

text \<open>The source assembled for single-precision GEMM on a device without quirks.\<close>

definition plain_gemm_source :: string where
  "plain_gemm_source =
     ''D;#define PRECISION 32'' @ [CHR 0x0A] @ ''#define ROUTINE_GEMM'' @ [CHR 0x0A] @ ''H;a;b;''"



text \<open>
  A request on the generic GPU whose two source fragments are themselves the texts of the
  fast multiply-add define and of the staggered-index define.
\<close>

definition request_with_defines_in_fragments :: request where
  "request_with_defines_in_fragments =
     \<lparr>queue_context = 1, queue_device = generic_gpu, routine_name = ''GEMM'',
      precision = kSingle, db_defines = ''D;'', source = [mad_define, staggered_define]\<rparr>"

section \<open>Properties\<close>

subsection \<open>Auxiliary facts\<close>

lemmas example_defs = generic_gpu_def example_env_def backend_ok_def backend_build_fails_def
  gemm_request_def empty_state_def state_with_binary_def plain_gemm_source_def

lemmas model_defs = Routine_def binary_cache_branch_def compile_kernel_def check_capabilities_def
  compile_and_store_def build_from_cached_binary_def Build_program_def build_options_def
  ProgramIsInCache_def BinaryIsInCache_def GetBinaryFromCache_def not_found_def
  CL_SUCCESS_def CL_BUILD_PROGRAM_FAILURE_def storeIfAbsent_def new_calls_def Let_def

lemmas eval_defs = model_defs example_defs assemble_source_def ToString_def nat_digits.simps
  compiled_program_def

lemma foldl_append_concat: "foldl (\<lambda>acc s. acc @ s) a xs = a @ concat xs"
  by (induction xs arbitrary: a) simp_all

lemma record_call_simps [simp]:
  "binary_cache (record_call c s) = binary_cache s"
  "program_cache (record_call c s) = program_cache s"
  "calls (record_call c s) = calls s @ [c]"
  by (simp_all add: record_call_def)

lemma Store_simps [simp]:
  "binary_cache (StoreBinaryToCache b d p n s) = storeIfAbsent (binary_cache s) (d, p, n) b"
  "program_cache (StoreBinaryToCache b d p n s) = program_cache s"
  "calls (StoreBinaryToCache b d p n s) = calls s @ [StoreBinary b d p n]"
  "binary_cache (StoreProgramToCache pr c p n s) = binary_cache s"
  "program_cache (StoreProgramToCache pr c p n s) = storeIfAbsent (program_cache s) (c, p, n) pr"
  "calls (StoreProgramToCache pr c p n s) = calls s @ [StoreProgram pr c p n]"
  by (simp_all add: StoreBinaryToCache_def StoreProgramToCache_def)

lemma storeIfAbsent_absent: "m k = None \<Longrightarrow> storeIfAbsent m k v = m(k \<mapsto> v)"
  by (simp add: storeIfAbsent_def)

lemma Routine_program_hit:
  "ProgramIsInCache s (queue_context rq) (precision rq) (routine_name rq) \<Longrightarrow>
   Routine env be rq s = (Inr (), s)"
  by (simp add: Routine_def)

lemma Routine_both_miss:
  assumes "\<not> ProgramIsInCache s (queue_context rq) (precision rq) (routine_name rq)"
    and "\<not> BinaryIsInCache s (Name (queue_device rq)) (precision rq) (routine_name rq)"
  shows "Routine env be rq s =
         compile_kernel env be rq (build_options env) (record_call Getenv s)"
  using assms by (simp add: Routine_def binary_cache_branch_def BinaryIsInCache_def)

text \<open>The three outcomes of compiling and storing.\<close>

lemma compile_and_store_cases:
  fixes be rq opts src s
  defines "ctx \<equiv> queue_context rq" and "dev \<equiv> queue_device rq"
  defines "s1 \<equiv> record_call (CreateProgramWithSource ctx src) s"
  defines "s2 \<equiv> record_call (Build (ProgramFromSource ctx src) dev opts) s1"
  defines "prog \<equiv> Built (ProgramFromSource ctx src) dev opts"
  shows "compile_and_store be rq opts src s =
    (if create_with_source_status be ctx src \<noteq> CL_SUCCESS
     then (Inl (CLError (create_with_source_status be ctx src)), s1)
     else if build_status be (ProgramFromSource ctx src) dev opts \<noteq> CL_SUCCESS
     then (Inl (CLError (build_status be (ProgramFromSource ctx src) dev opts)),
           if build_status be (ProgramFromSource ctx src) dev opts = CL_BUILD_PROGRAM_FAILURE
           then record_call PrintBuildInfo s2 else s2)
     else (Inr (), StoreProgramToCache prog ctx (precision rq) (routine_name rq)
                     (StoreBinaryToCache (GetIR be prog) (Name dev) (precision rq) (routine_name rq)
                        (record_call (QueryIR prog) s2))))"
  unfolding assms
  by (simp add: compile_and_store_def Build_program_def Let_def)

lemma compile_kernel_cases:
  "compile_kernel env be rq opts s =
    (if lacks_required_extension env rq
     then (Inl (RuntimeErrorCode (if precision rq = kHalf then kNoHalfPrecision else kNoDoublePrecision)),
           record_call QueryCapabilities s)
     else compile_and_store be rq opts (assemble_source env rq)
            (record_call GetDefines (record_call QueryCapabilities s)))"
  by (auto simp: compile_kernel_def check_capabilities_def lacks_required_extension_def not_found_def Let_def)

lemma binary_cache_branch_cases:
  fixes be rq opts s
  defines "ctx \<equiv> queue_context rq" and "dev \<equiv> queue_device rq"
  shows "binary_cache_branch be rq opts s =
    (case binary_cache s (Name dev, precision rq, routine_name rq) of
       None \<Rightarrow> (Inr (), s)
     | Some b \<Rightarrow>
        (if create_with_binary_status be dev ctx b \<noteq> CL_SUCCESS
         then (Inl (CLError (create_with_binary_status be dev ctx b)),
               record_call (CreateProgramWithBinary dev ctx b) s)
         else if build_status be (ProgramFromBinary dev ctx b) dev opts \<noteq> CL_SUCCESS
         then (Inl (CLError (build_status be (ProgramFromBinary dev ctx b) dev opts)),
               record_call (Build (ProgramFromBinary dev ctx b) dev opts)
                 (record_call (CreateProgramWithBinary dev ctx b) s))
         else (Inr (), StoreProgramToCache (Built (ProgramFromBinary dev ctx b) dev opts) ctx
                         (precision rq) (routine_name rq)
                         (record_call (Build (ProgramFromBinary dev ctx b) dev opts)
                            (record_call (CreateProgramWithBinary dev ctx b) s)))))"
  unfolding assms
  by (simp add: binary_cache_branch_def BinaryIsInCache_def GetBinaryFromCache_def
      build_from_cached_binary_def Build_program_def Let_def split: option.splits)


text \<open>The constructor after a miss in the program cache, path by path.\<close>

lemma Routine_program_miss:
  fixes env be rq s
  defines "ctx \<equiv> queue_context rq" and "dev \<equiv> queue_device rq"
  defines "opts \<equiv> build_options env"
  defines "s1 \<equiv> record_call Getenv s"
  assumes miss: "\<not> ProgramIsInCache s ctx (precision rq) (routine_name rq)"
  shows "Routine env be rq s =
    (case binary_cache s (Name dev, precision rq, routine_name rq) of
       None \<Rightarrow> compile_kernel env be rq opts s1
     | Some b \<Rightarrow>
        (if create_with_binary_status be dev ctx b \<noteq> CL_SUCCESS
         then (Inl (CLError (create_with_binary_status be dev ctx b)),
               record_call (CreateProgramWithBinary dev ctx b) s1)
         else if build_status be (ProgramFromBinary dev ctx b) dev opts \<noteq> CL_SUCCESS
         then (Inl (CLError (build_status be (ProgramFromBinary dev ctx b) dev opts)),
               record_call (Build (ProgramFromBinary dev ctx b) dev opts)
                 (record_call (CreateProgramWithBinary dev ctx b) s1))
         else compile_kernel env be rq opts
                (StoreProgramToCache (Built (ProgramFromBinary dev ctx b) dev opts) ctx
                   (precision rq) (routine_name rq)
                   (record_call (Build (ProgramFromBinary dev ctx b) dev opts)
                      (record_call (CreateProgramWithBinary dev ctx b) s1)))))"
  using miss unfolding ctx_def dev_def opts_def s1_def
  by (simp add: Routine_def Let_def binary_cache_branch_cases split: option.splits)

lemma compile_kernel_sources:
  "\<exists>l. calls (snd (compile_kernel env be rq opts s)) = calls s @ l
       \<and> (\<forall>c src. CreateProgramWithSource c src \<in> set l \<longrightarrow>
              c = queue_context rq \<and> src = assemble_source env rq)"
  by (simp add: compile_kernel_cases compile_and_store_cases)

lemma Routine_sources:
  assumes "CreateProgramWithSource c src \<in> set (new_calls env be rq s)"
  shows "c = queue_context rq \<and> src = assemble_source env rq"
proof -
  have miss: "\<not> ProgramIsInCache s (queue_context rq) (precision rq) (routine_name rq)"
    using assms by (auto simp: new_calls_def Routine_program_hit)
  show ?thesis
  proof (cases "binary_cache s (Name (queue_device rq), precision rq, routine_name rq)")
    case None
    obtain l where l: "calls (snd (compile_kernel env be rq (build_options env) (record_call Getenv s)))
        = calls (record_call Getenv s) @ l"
      "\<forall>c src. CreateProgramWithSource c src \<in> set l \<longrightarrow>
              c = queue_context rq \<and> src = assemble_source env rq"
      using compile_kernel_sources by blast
    with None assms show ?thesis
      by (auto simp: new_calls_def Routine_program_miss[OF miss])
  next
    case (Some b)
    let ?s3 = "StoreProgramToCache (Built (ProgramFromBinary (queue_device rq) (queue_context rq) b) (queue_device rq) (build_options env)) (queue_context rq)
                   (precision rq) (routine_name rq)
                   (record_call (Build (ProgramFromBinary (queue_device rq) (queue_context rq) b) (queue_device rq) (build_options env))
                      (record_call (CreateProgramWithBinary (queue_device rq) (queue_context rq) b) (record_call Getenv s)))"
    obtain l where l: "calls (snd (compile_kernel env be rq (build_options env) ?s3))
        = calls ?s3 @ l"
      "\<forall>c src. CreateProgramWithSource c src \<in> set l \<longrightarrow>
              c = queue_context rq \<and> src = assemble_source env rq"
      using compile_kernel_sources by blast
    with Some assms show ?thesis
      by (auto simp: new_calls_def Routine_program_miss[OF miss] split: if_splits)
  qed
qed

lemma assemble_source_in_order:
  "assemble_source env rq = source_in_spec_order env rq"
  by (simp add: assemble_source_def source_in_spec_order_def Let_def foldl_append_concat
      precision_define_def routine_define_def device_quirk_defines_def mad_define_def
      staggered_define_def fence_define_def)

lemma quirk_section_eq: "quirk_section env rq = device_quirk_defines (queue_device rq)"
  by (simp add: quirk_section_def Let_def assemble_source_in_order source_in_spec_order_def)

lemma sublist_quirks:
  "sublist mad_define (mad_define @ staggered_define)"
  "sublist mad_define (mad_define @ staggered_define @ fence_define)"
  "sublist staggered_define (mad_define @ staggered_define)"
  "sublist staggered_define (mad_define @ staggered_define @ fence_define)"
  "sublist fence_define (mad_define @ staggered_define @ fence_define)"
  "\<not> sublist mad_define fence_define"
  "\<not> sublist staggered_define fence_define"
  "\<not> sublist fence_define (mad_define @ staggered_define)"
  "\<not> sublist mad_define []"
  "\<not> sublist staggered_define []"
  "\<not> sublist fence_define []"
  by code_simp+

lemma cold_success_calls:
  assumes pm: "\<not> ProgramIsInCache s (queue_context rq) (precision rq) (routine_name rq)"
    and bm: "\<not> BinaryIsInCache s (Name (queue_device rq)) (precision rq) (routine_name rq)"
    and ok: "fst (Routine env be rq s) = Inr ()"
  shows "new_calls env be rq s =
      [Getenv, QueryCapabilities, GetDefines,
       CreateProgramWithSource (queue_context rq) (assemble_source env rq),
       Build (ProgramFromSource (queue_context rq) (assemble_source env rq))
         (queue_device rq) (build_options env),
       QueryIR (compiled_program env rq),
       StoreBinary (GetIR be (compiled_program env rq)) (Name (queue_device rq))
         (precision rq) (routine_name rq),
       StoreProgram (compiled_program env rq) (queue_context rq) (precision rq)
         (routine_name rq)]"
  using ok
  by (simp add: new_calls_def Routine_both_miss[OF pm bm] compile_kernel_cases
      compile_and_store_cases compiled_program_def split: if_splits)

lemma split_after_head:
  assumes "h # r = d1 @ d2" "d1 \<noteq> []" "d2 \<noteq> []" "prefix d2 (h # q)"
  shows "h \<in> set r"
proof -
  from assms(3,4) obtain t where d2: "d2 = h # t"
    by (cases d2) auto
  from assms(1,2) obtain u where "d1 = h # u" "r = u @ d2"
    by (cases d1) auto
  with d2 show ?thesis by simp
qed

lemma split_before_last:
  assumes "r' @ [e] = d1 @ d2" "d1 \<noteq> []" "d2 \<noteq> []" "suffix d1 (q' @ [e])"
  shows "e \<in> set r'"
proof -
  from assms(2,4) obtain t where d1: "d1 = t @ [e]"
    by (cases d1 rule: rev_cases) (auto simp: suffix_def)
  from assms(1,3) obtain u where "d2 = u @ [e]" "r' = d1 @ u"
    by (cases d2 rule: rev_cases) auto
  with d1 show ?thesis by simp
qed

lemma sublist_between:
  assumes dh: "d = h # r" "h \<notin> set r" and dl: "d = r' @ [e]" "e \<notin> set r'"
    and Q: "Q = [] \<or> (hd Q = h \<and> last Q = e)"
    and rest: "\<not> sublist d (P @ S)"
  shows "sublist d (P @ Q @ S) \<longleftrightarrow> sublist d Q"
proof
  assume "sublist d Q"
  then show "sublist d (P @ Q @ S)"
    by (meson sublist_appendI sublist_order.order_trans)
next
  assume in_all: "sublist d (P @ Q @ S)"
  from rest have nP: "\<not> sublist d P" and nS: "\<not> sublist d S"
    by (auto simp: sublist_append)
  show "sublist d Q"
  proof (cases "Q = []")
    case True
    with in_all rest show ?thesis by simp
  next
    case False
    with Q have "Q = h # tl Q" and "Q = butlast Q @ [e]"
      by (metis list.collapse, metis append_butlast_last_id)
    then obtain q q' where Qh: "Q = h # q" and Ql: "Q = q' @ [e]" by blast
    have in_QS: "sublist d (Q @ S) \<Longrightarrow> sublist d Q"
    proof -
      assume "sublist d (Q @ S)"
      then consider "sublist d Q" | "sublist d S"
        | d1 d2 where "d = d1 @ d2" "suffix d1 Q" "prefix d2 S"
        by (auto simp: sublist_append)
      then show "sublist d Q"
      proof cases
        case 1 then show ?thesis .
      next
        case 2 with nS show ?thesis by simp
      next
        case 3
        show ?thesis
        proof (cases "d1 = [] \<or> d2 = []")
          case True
          with 3 nS show ?thesis by auto
        next
          case False
          with 3 dl(1) Ql have "e \<in> set r'"
            using split_before_last [of r' e d1 d2 q'] by simp
          with dl(2) show ?thesis by simp
        qed
      qed
    qed
    from in_all consider "sublist d P" | "sublist d (Q @ S)"
      | d1 d2 where "d = d1 @ d2" "suffix d1 P" "prefix d2 (Q @ S)"
      by (auto simp: sublist_append)
    then show ?thesis
    proof cases
      case 1 with nP show ?thesis by simp
    next
      case 2 then show ?thesis by (rule in_QS)
    next
      case 3
      show ?thesis
      proof (cases "d1 = [] \<or> d2 = []")
        case True
        with 3 nP in_QS show ?thesis by auto
      next
        case False
        from 3(3) Qh have "prefix d2 (h # q @ S)" by simp
        with False 3(1) dh(1) have "h \<in> set r"
          using split_after_head [of h r d1 d2 "q @ S"] by simp
        with dh(2) show ?thesis by simp
      qed
    qed
  qed
qed

lemma quirk_defines_shape:
  "device_quirk_defines dev = []
   \<or> (hd (device_quirk_defines dev) = CHR ''#'' \<and> last (device_quirk_defines dev) = CHR 0x0A)"
  by (simp add: device_quirk_defines_def mad_define_def staggered_define_def fence_define_def)

lemma sublist_source_iff_section:
  assumes "d = mad_define \<or> d = staggered_define \<or> d = fence_define"
    and "\<not> sublist d (db_defines rq @ precision_define env rq @ routine_define rq
                       @ common_opencl env @ concat (source rq))"
  shows "sublist d (assemble_source env rq) \<longleftrightarrow> sublist d (device_quirk_defines (queue_device rq))"
proof -
  let ?P = "db_defines rq @ precision_define env rq @ routine_define rq"
  let ?S = "common_opencl env @ concat (source rq)"
  have src: "assemble_source env rq = ?P @ device_quirk_defines (queue_device rq) @ ?S"
    by (simp add: assemble_source_in_order source_in_spec_order_def)
  from assms(1) have "d = CHR ''#'' # tl d \<and> CHR ''#'' \<notin> set (tl d)
      \<and> d = butlast d @ [CHR 0x0A] \<and> CHR 0x0A \<notin> set (butlast d)"
    by (auto simp: mad_define_def staggered_define_def fence_define_def)
  then have "d = CHR ''#'' # tl d" "CHR ''#'' \<notin> set (tl d)"
    "d = butlast d @ [CHR 0x0A]" "CHR 0x0A \<notin> set (butlast d)"
    by blast+
  from sublist_between [OF this quirk_defines_shape, of ?P ?S] assms(2) src
  show ?thesis by simp
qed

lemma caches_after_keeps_binary:
  "bc k \<noteq> None \<Longrightarrow> fst (caches_after l (bc, pc)) k \<noteq> None"
proof (induction l arbitrary: bc pc)
  case Nil
  then show ?case by simp
next
  case (Cons c l)
  then show ?case
    by (cases c) (auto simp: storeIfAbsent_def split: option.splits)
qed

lemma reuse_success_calls:
  fixes env be rq s b
  defines "ctx \<equiv> queue_context rq" and "dev \<equiv> queue_device rq"
  defines "opts \<equiv> build_options env"
  assumes pm: "\<not> ProgramIsInCache s ctx (precision rq) (routine_name rq)"
    and bh: "binary_cache s (Name dev, precision rq, routine_name rq) = Some b"
    and ok: "fst (Routine env be rq s) = Inr ()"
  shows "new_calls env be rq s =
      [Getenv, CreateProgramWithBinary dev ctx b, Build (ProgramFromBinary dev ctx b) dev opts,
       StoreProgram (Built (ProgramFromBinary dev ctx b) dev opts) ctx (precision rq)
         (routine_name rq),
       QueryCapabilities, GetDefines,
       CreateProgramWithSource ctx (assemble_source env rq),
       Build (ProgramFromSource ctx (assemble_source env rq)) dev opts,
       QueryIR (compiled_program env rq),
       StoreBinary (GetIR be (compiled_program env rq)) (Name dev) (precision rq)
         (routine_name rq),
       StoreProgram (compiled_program env rq) ctx (precision rq) (routine_name rq)]"
  using ok bh pm unfolding ctx_def dev_def opts_def
  by (simp add: new_calls_def Routine_program_miss compile_kernel_cases
      compile_and_store_cases compiled_program_def split: if_splits)




subsection \<open>The program cache\<close>

text \<open>
  C6: when the program cache holds an entry for the context, the precision and the routine
  name of the request, the constructor returns at once. The state is the one it started
  from, so no cache is changed, and no call is logged: no read of the build options, no
  capability query, no source assembly, no compilation and no build.
\<close>

theorem program_cache_hit_returns_at_once:
  "ProgramIsInCache s (queue_context rq) (precision rq) (routine_name rq) \<Longrightarrow>
   Routine env be rq s = (Inr (), s) \<and> new_calls env be rq s = []"
  by (simp add: Routine_program_hit new_calls_def)

theorem program_cache_hit_returns_at_once_witness:
  "ProgramIsInCache state_with_program 1 kSingle ''GEMM''
   \<and> Routine example_env backend_ok (gemm_request 1 generic_gpu kSingle) state_with_program
       = (Inr (), state_with_program)
   \<and> new_calls example_env backend_ok (gemm_request 1 generic_gpu kSingle) state_with_program = []"
  using program_cache_hit_returns_at_once
    [of state_with_program "gemm_request 1 generic_gpu kSingle" example_env backend_ok]
  by (simp add: ProgramIsInCache_def state_with_program_def gemm_request_def)

subsection \<open>The capability check\<close>




text \<open>
  C5: on the cold path (neither cache holds the request) a request that the capability
  check rejects fails for an unsupported precision. The only calls made are the read of
  the build options and the capability query: no defines are fetched, no source is
  compiled, nothing is built, and both caches are as before.
\<close>

theorem capability_rejection_fails_fast:
  assumes "\<not> ProgramIsInCache s (queue_context rq) (precision rq) (routine_name rq)"
    and "\<not> BinaryIsInCache s (Name (queue_device rq)) (precision rq) (routine_name rq)"
    and "lacks_required_extension env rq"
  shows "(\<exists>e. fst (Routine env be rq s) = Inl e \<and> UnsupportedPrecision e)
     \<and> new_calls env be rq s = [Getenv, QueryCapabilities]
     \<and> binary_cache (snd (Routine env be rq s)) = binary_cache s
     \<and> program_cache (snd (Routine env be rq s)) = program_cache s"
  using assms(3)
  by (simp add: Routine_both_miss[OF assms(1,2)] compile_kernel_cases new_calls_def)

theorem capability_rejection_fails_fast_witness:
  "\<not> ProgramIsInCache empty_state 1 kDouble ''GEMM''
   \<and> \<not> BinaryIsInCache empty_state ''GenericGPU'' kDouble ''GEMM''
   \<and> lacks_required_extension example_env (gemm_request 1 generic_gpu kDouble)
   \<and> fst (Routine example_env backend_ok (gemm_request 1 generic_gpu kDouble) empty_state)
       = Inl (RuntimeErrorCode kNoDoublePrecision)
   \<and> new_calls example_env backend_ok (gemm_request 1 generic_gpu kDouble) empty_state
       = [Getenv, QueryCapabilities]
   \<and> binary_cache (snd (Routine example_env backend_ok (gemm_request 1 generic_gpu kDouble) empty_state)) = Map.empty
   \<and> program_cache (snd (Routine example_env backend_ok (gemm_request 1 generic_gpu kDouble) empty_state)) = Map.empty"
proof -
  have h1: "\<not> ProgramIsInCache empty_state (queue_context (gemm_request 1 generic_gpu kDouble))
     (precision (gemm_request 1 generic_gpu kDouble)) (routine_name (gemm_request 1 generic_gpu kDouble))"
    by (simp add: ProgramIsInCache_def example_defs)
  have h2: "\<not> BinaryIsInCache empty_state (Name (queue_device (gemm_request 1 generic_gpu kDouble)))
     (precision (gemm_request 1 generic_gpu kDouble)) (routine_name (gemm_request 1 generic_gpu kDouble))"
    by (simp add: BinaryIsInCache_def example_defs)
  have h3: "lacks_required_extension example_env (gemm_request 1 generic_gpu kDouble)"
    by (simp add: lacks_required_extension_def example_defs)
  have e: "fst (Routine example_env backend_ok (gemm_request 1 generic_gpu kDouble) empty_state)
       = Inl (RuntimeErrorCode kNoDoublePrecision)"
    by (simp add: eval_defs)
  show ?thesis
    using capability_rejection_fails_fast [OF h1 h2 h3, of backend_ok] h1 h2 h3 e
    by (simp add: example_defs)
qed

subsection \<open>The cold path and the caches\<close>



text \<open>
  C10: whenever the constructor compiles successfully after a miss in the program cache,
  the last two calls of its log are the store of the binary and then the store of the
  compiled program. After every initial part of the log, if the program cache holds the
  program key of the request then the binary cache holds its binary key; and the log as
  a whole yields the caches of the final state.
\<close>

theorem binary_stored_before_program:
  assumes pm: "\<not> ProgramIsInCache s (queue_context rq) (precision rq) (routine_name rq)"
    and ok: "fst (Routine env be rq s) = Inr ()"
  shows "drop (length (new_calls env be rq s) - 2) (new_calls env be rq s) =
      [StoreBinary (GetIR be (compiled_program env rq)) (Name (queue_device rq))
         (precision rq) (routine_name rq),
       StoreProgram (compiled_program env rq) (queue_context rq) (precision rq)
         (routine_name rq)]
    \<and> (\<forall>k. case caches_after (take k (new_calls env be rq s)) (binary_cache s, program_cache s) of
            (bc, pc) \<Rightarrow> pc (queue_context rq, precision rq, routine_name rq) \<noteq> None \<longrightarrow>
                        bc (Name (queue_device rq), precision rq, routine_name rq) \<noteq> None)
    \<and> caches_after (new_calls env be rq s) (binary_cache s, program_cache s)
        = (binary_cache (snd (Routine env be rq s)), program_cache (snd (Routine env be rq s)))"
proof (cases "binary_cache s (Name (queue_device rq), precision rq, routine_name rq)")
  case None
  then have bm: "\<not> BinaryIsInCache s (Name (queue_device rq)) (precision rq) (routine_name rq)"
    by (simp add: BinaryIsInCache_def)
  note calls = cold_success_calls [OF pm bm ok]
  have pn: "program_cache s (queue_context rq, precision rq, routine_name rq) = None"
    using pm by (simp add: ProgramIsInCache_def)
  have last2: "drop (length (new_calls env be rq s) - 2) (new_calls env be rq s) =
      [StoreBinary (GetIR be (compiled_program env rq)) (Name (queue_device rq))
         (precision rq) (routine_name rq),
       StoreProgram (compiled_program env rq) (queue_context rq) (precision rq)
         (routine_name rq)]"
    by (simp add: calls)
  have final: "caches_after (new_calls env be rq s) (binary_cache s, program_cache s)
        = (binary_cache (snd (Routine env be rq s)), program_cache (snd (Routine env be rq s)))"
    using ok
    by (simp add: calls)
      (simp add: Routine_both_miss[OF pm bm] compile_kernel_cases
        compile_and_store_cases compiled_program_def split: if_splits)
  have inv: "case caches_after (take k (new_calls env be rq s)) (binary_cache s, program_cache s) of
            (bc, pc) \<Rightarrow> pc (queue_context rq, precision rq, routine_name rq) \<noteq> None \<longrightarrow>
                        bc (Name (queue_device rq), precision rq, routine_name rq) \<noteq> None"
    for k :: nat
  proof -
    consider "k = 0" | "k = 1" | "k = 2" | "k = 3" | "k = 4" | "k = 5" | "k = 6" | "k = 7"
      | "k \<ge> 8"
      by linarith
    then show ?thesis
      by cases (simp_all add: calls pn None storeIfAbsent_absent)
  qed
  from last2 inv final show ?thesis by blast
next
  case (Some b)
  note calls = reuse_success_calls [OF pm Some ok]
  have last2: "drop (length (new_calls env be rq s) - 2) (new_calls env be rq s) =
      [StoreBinary (GetIR be (compiled_program env rq)) (Name (queue_device rq))
         (precision rq) (routine_name rq),
       StoreProgram (compiled_program env rq) (queue_context rq) (precision rq)
         (routine_name rq)]"
    by (simp add: calls)
  have final: "caches_after (new_calls env be rq s) (binary_cache s, program_cache s)
        = (binary_cache (snd (Routine env be rq s)), program_cache (snd (Routine env be rq s)))"
    using ok Some
    by (simp add: calls)
      (simp add: Routine_program_miss[OF pm] compile_kernel_cases
        compile_and_store_cases compiled_program_def split: if_splits)
  have inv: "case caches_after (take k (new_calls env be rq s)) (binary_cache s, program_cache s) of
            (bc, pc) \<Rightarrow> pc (queue_context rq, precision rq, routine_name rq) \<noteq> None \<longrightarrow>
                        bc (Name (queue_device rq), precision rq, routine_name rq) \<noteq> None"
    for k :: nat
    using caches_after_keeps_binary [of "binary_cache s"
        "(Name (queue_device rq), precision rq, routine_name rq)"
        "take k (new_calls env be rq s)" "program_cache s"] Some
    by (simp add: case_prod_unfold)
  from last2 inv final show ?thesis by blast
qed

theorem binary_stored_before_program_witness:
  "\<not> ProgramIsInCache empty_state 1 kSingle ''GEMM''
   \<and> fst (Routine example_env backend_ok (gemm_request 1 generic_gpu kSingle) empty_state) = Inr ()
   \<and> drop 6 (new_calls example_env backend_ok (gemm_request 1 generic_gpu kSingle) empty_state)
       = [StoreBinary ''IR'' ''GenericGPU'' kSingle ''GEMM'',
          StoreProgram (Built (ProgramFromSource 1 plain_gemm_source) generic_gpu []) 1 kSingle ''GEMM'']
   \<and> fst (caches_after (take 7 (new_calls example_env backend_ok
              (gemm_request 1 generic_gpu kSingle) empty_state)) (Map.empty, Map.empty))
         (''GenericGPU'', kSingle, ''GEMM'') = Some ''IR''
   \<and> snd (caches_after (take 7 (new_calls example_env backend_ok
              (gemm_request 1 generic_gpu kSingle) empty_state)) (Map.empty, Map.empty))
         (1, kSingle, ''GEMM'') = None"
proof -
  let ?rq = "gemm_request 1 generic_gpu kSingle"
  have pm: "\<not> ProgramIsInCache empty_state (queue_context ?rq) (precision ?rq) (routine_name ?rq)"
    by (simp add: ProgramIsInCache_def example_defs)
  have ok: "fst (Routine example_env backend_ok ?rq empty_state) = Inr ()"
    by (simp add: eval_defs)
  have cp: "compiled_program example_env ?rq = Built (ProgramFromSource 1 plain_gemm_source) generic_gpu []"
    by (simp add: eval_defs)
  have ir: "GetIR backend_ok prog = ''IR''" for prog
    by (simp add: backend_ok_def)
  have len: "length (new_calls example_env backend_ok ?rq empty_state) = 8"
    by (simp add: eval_defs)
  have sel: "Name (queue_device ?rq) = ''GenericGPU''" "precision ?rq = kSingle"
    "routine_name ?rq = ''GEMM''" "queue_context ?rq = 1"
    by (simp_all add: example_defs)
  have before: "take 6 (new_calls example_env backend_ok ?rq empty_state) =
      [Getenv, QueryCapabilities, GetDefines, CreateProgramWithSource 1 plain_gemm_source,
       Build (ProgramFromSource 1 plain_gemm_source) generic_gpu [],
       QueryIR (Built (ProgramFromSource 1 plain_gemm_source) generic_gpu [])]"
    by (simp add: eval_defs)
  have "8 - 2 = (6::nat)"
    by simp
  with binary_stored_before_program [OF pm ok, THEN conjunct1]
  have last2: "drop 6 (new_calls example_env backend_ok ?rq empty_state) =
      [StoreBinary ''IR'' ''GenericGPU'' kSingle ''GEMM'',
       StoreProgram (Built (ProgramFromSource 1 plain_gemm_source) generic_gpu []) 1 kSingle ''GEMM'']"
    unfolding len cp ir sel by (simp only:)
  have "new_calls example_env backend_ok ?rq empty_state
        = take 6 (new_calls example_env backend_ok ?rq empty_state)
          @ drop 6 (new_calls example_env backend_ok ?rq empty_state)"
    by simp
  then have all: "new_calls example_env backend_ok ?rq empty_state =
      [Getenv, QueryCapabilities, GetDefines, CreateProgramWithSource 1 plain_gemm_source,
       Build (ProgramFromSource 1 plain_gemm_source) generic_gpu [],
       QueryIR (Built (ProgramFromSource 1 plain_gemm_source) generic_gpu []),
       StoreBinary ''IR'' ''GenericGPU'' kSingle ''GEMM'',
       StoreProgram (Built (ProgramFromSource 1 plain_gemm_source) generic_gpu []) 1 kSingle ''GEMM'']"
    unfolding before last2 by simp
  have pm': "\<not> ProgramIsInCache empty_state 1 kSingle ''GEMM''"
    by (simp add: ProgramIsInCache_def empty_state_def)
  have after7: "fst (caches_after (take 7 (new_calls example_env backend_ok ?rq empty_state))
         (Map.empty, Map.empty)) (''GenericGPU'', kSingle, ''GEMM'') = Some ''IR''"
    "snd (caches_after (take 7 (new_calls example_env backend_ok ?rq empty_state))
         (Map.empty, Map.empty)) (1, kSingle, ''GEMM'') = None"
    unfolding all by (simp_all add: storeIfAbsent_def)
  from pm' ok last2 after7 show ?thesis
    by blast
qed

subsection \<open>The binary cache\<close>

text \<open>
  C1, evaluated on the code: the program cache is empty, the binary cache holds the binary
  of single-precision GEMM for the device, and every call of the back end succeeds. The
  constructor builds the program from the cached binary and stores it, and then goes on:
  it compiles the assembled source once more and builds it, so the request costs one
  compilation and two builds, where reuse of the binary asks for no compilation and one
  build. The same holds when the binary was stored by a first request under another
  context. On a back end where building from source fails, the request fails although
  the program built from the binary is already in the program cache.
\<close>

theorem binary_reuse_falls_through_to_compile:
  "fst (Routine example_env backend_ok (gemm_request 2 generic_gpu kSingle) state_with_binary) = Inr ()
   \<and> compile_calls (new_calls example_env backend_ok (gemm_request 2 generic_gpu kSingle)
        state_with_binary) = 1
   \<and> build_calls (new_calls example_env backend_ok (gemm_request 2 generic_gpu kSingle)
        state_with_binary) = 2
   \<and> compile_calls (new_calls example_env backend_ok (gemm_request 2 generic_gpu kSingle)
        (snd (Routine example_env backend_ok (gemm_request 1 generic_gpu kSingle) empty_state))) = 1
   \<and> build_calls (new_calls example_env backend_ok (gemm_request 2 generic_gpu kSingle)
        (snd (Routine example_env backend_ok (gemm_request 1 generic_gpu kSingle) empty_state))) = 2
   \<and> fst (Routine example_env backend_source_build_fails (gemm_request 2 generic_gpu kSingle)
        state_with_binary) = Inl (CLError (- 11))
   \<and> program_cache (snd (Routine example_env backend_source_build_fails
        (gemm_request 2 generic_gpu kSingle) state_with_binary)) (2, kSingle, ''GEMM'')
       = Some (Built (ProgramFromBinary generic_gpu 2 ''IR'') generic_gpu [])"
  by (simp add: eval_defs backend_source_build_fails_def compile_calls_def build_calls_def)

text \<open>
  C3: when the program cache misses, the binary cache holds a binary for the request and
  creating or building the program from that binary fails, the constructor fails with
  the \<^verbatim>\<open>CLError\<close> of the back end (a build error) and both caches are unchanged; the
  binary is still found in the cache afterwards.
\<close>

theorem failed_binary_build_keeps_binary:
  assumes "\<not> ProgramIsInCache s (queue_context rq) (precision rq) (routine_name rq)"
    and "binary_cache s (Name (queue_device rq), precision rq, routine_name rq) = Some b"
    and "create_with_binary_status be (queue_device rq) (queue_context rq) b \<noteq> CL_SUCCESS
         \<or> build_status be (ProgramFromBinary (queue_device rq) (queue_context rq) b)
              (queue_device rq) (build_options env) \<noteq> CL_SUCCESS"
  shows "(\<exists>st. fst (Routine env be rq s) = Inl (CLError st) \<and> st \<noteq> CL_SUCCESS)
     \<and> binary_cache (snd (Routine env be rq s)) = binary_cache s
     \<and> program_cache (snd (Routine env be rq s)) = program_cache s
     \<and> GetBinaryFromCache (snd (Routine env be rq s)) (Name (queue_device rq)) (precision rq)
          (routine_name rq) = Some b"
  using assms(2,3)
  by (auto simp: Routine_program_miss[OF assms(1)] GetBinaryFromCache_def)

theorem failed_binary_build_keeps_binary_witness:
  "\<not> ProgramIsInCache state_with_binary 2 kSingle ''GEMM''
   \<and> binary_cache state_with_binary (''GenericGPU'', kSingle, ''GEMM'') = Some ''IR''
   \<and> build_status backend_build_fails (ProgramFromBinary generic_gpu 2 ''IR'') generic_gpu []
        \<noteq> CL_SUCCESS
   \<and> fst (Routine example_env backend_build_fails (gemm_request 2 generic_gpu kSingle)
           state_with_binary) = Inl (CLError (- 11))
   \<and> binary_cache (snd (Routine example_env backend_build_fails
           (gemm_request 2 generic_gpu kSingle) state_with_binary))
        = binary_cache state_with_binary
   \<and> GetBinaryFromCache (snd (Routine example_env backend_build_fails
           (gemm_request 2 generic_gpu kSingle) state_with_binary)) ''GenericGPU'' kSingle ''GEMM''
        = Some ''IR''"
proof -
  let ?rq = "gemm_request 2 generic_gpu kSingle"
  have pm: "\<not> ProgramIsInCache state_with_binary (queue_context ?rq) (precision ?rq)
              (routine_name ?rq)"
    by (simp add: ProgramIsInCache_def example_defs)
  have bh: "binary_cache state_with_binary (Name (queue_device ?rq), precision ?rq, routine_name ?rq)
              = Some ''IR''"
    by (simp add: example_defs)
  have fails: "create_with_binary_status backend_build_fails (queue_device ?rq) (queue_context ?rq) ''IR''
                 \<noteq> CL_SUCCESS
               \<or> build_status backend_build_fails
                   (ProgramFromBinary (queue_device ?rq) (queue_context ?rq) ''IR'')
                   (queue_device ?rq) (build_options example_env) \<noteq> CL_SUCCESS"
    by (simp add: example_defs CL_SUCCESS_def)
  have e: "fst (Routine example_env backend_build_fails ?rq state_with_binary) = Inl (CLError (- 11))"
    by (simp add: eval_defs)
  from failed_binary_build_keeps_binary [OF pm bh fails] e pm
  show ?thesis
    by (simp add: example_defs CL_SUCCESS_def)
qed

subsection \<open>The assembled source\<close>

text \<open>
  C7: the assembled source is the concatenation, in this order, of the defines of the
  tuning database, the precision define, the routine define, the device-quirk defines,
  the common header and the routine fragments in the order given; and every source the
  constructor compiles is this text.
\<close>

theorem assembled_source_in_fixed_order:
  "assemble_source env rq = source_in_spec_order env rq
   \<and> (\<forall>c src. CreateProgramWithSource c src \<in> set (new_calls env be rq s) \<longrightarrow>
         src = source_in_spec_order env rq)"
  using Routine_sources assemble_source_in_order by metis

theorem assembled_source_in_fixed_order_witness:
  "source_in_spec_order example_env (gemm_request 1 generic_gpu kSingle) = plain_gemm_source
   \<and> assemble_source example_env (gemm_request 1 generic_gpu kSingle) = plain_gemm_source
   \<and> CreateProgramWithSource 1 plain_gemm_source
        \<in> set (new_calls example_env backend_ok (gemm_request 1 generic_gpu kSingle) empty_state)"
proof -
  have c: "CreateProgramWithSource 1 plain_gemm_source
        \<in> set (new_calls example_env backend_ok (gemm_request 1 generic_gpu kSingle) empty_state)"
    by (simp add: eval_defs)
  have s: "source_in_spec_order example_env (gemm_request 1 generic_gpu kSingle) = plain_gemm_source"
    by (simp add: source_in_spec_order_def precision_define_def routine_define_def
        device_quirk_defines_def ToString_def nat_digits.simps example_defs)
  from assembled_source_in_fixed_order
         [of example_env "gemm_request 1 generic_gpu kSingle" backend_ok empty_state] c s
  show ?thesis by simp
qed

text \<open>
  C8, as stated, fails on a device that is not an AMD GPU when the texts supplied to the
  assembler already hold the defines: with the fast multiply-add define and the
  staggered-index define as the two fragments, the source assembled for the generic GPU
  contains both defines although the device is not an AMD device.
\<close>

theorem quirk_defines_from_fragments_counterexample:
  "sublist mad_define (assemble_source example_env request_with_defines_in_fragments)
   \<and> sublist staggered_define (assemble_source example_env request_with_defines_in_fragments)
   \<and> \<not> (IsAMD (queue_device request_with_defines_in_fragments)
          \<and> IsGPU (queue_device request_with_defines_in_fragments))"
proof -
  let ?head = "''D;#define PRECISION 32'' @ [CHR 0x0A] @ ''#define ROUTINE_GEMM'' @ [CHR 0x0A]
                 @ ''H;''"
  have src: "assemble_source example_env request_with_defines_in_fragments =
      ?head @ mad_define @ staggered_define"
    by (simp add: assemble_source_def request_with_defines_in_fragments_def example_defs
        ToString_def nat_digits.simps mad_define_def staggered_define_def)
  have "sublist mad_define (?head @ mad_define @ staggered_define)"
    by (rule sublist_appendI)
  moreover have "sublist staggered_define ((?head @ mad_define) @ staggered_define)"
    by (rule sublist_append_leftI)
  then have "sublist staggered_define (?head @ mad_define @ staggered_define)"
    by (simp only: append_assoc)
  moreover have "\<not> IsAMD (queue_device request_with_defines_in_fragments)"
    by (simp add: request_with_defines_in_fragments_def generic_gpu_def)
  ultimately show ?thesis
    unfolding src by blast
qed

text \<open>
  C8, amended: the assembled source consists of the database defines, the precision
  define and the routine define, then the section the assembler adds for the device,
  then the common header and the fragments. That section contains the fast multiply-add
  define, and likewise the staggered-index define, exactly when the device is an AMD
  device and a GPU; it contains the global-memory-fence define exactly when the device
  is an ARM device and a GPU. For each of the three defines: if it does not occur in the
  text made of the other parts, the whole assembled source contains it exactly when its
  device predicate holds.
\<close>

theorem quirk_defines_iff_device_predicate:
  fixes env rq
  defines "dev \<equiv> queue_device rq"
  defines "others \<equiv> db_defines rq @ precision_define env rq @ routine_define rq
                      @ common_opencl env @ concat (source rq)"
  shows "assemble_source env rq =
       db_defines rq @ precision_define env rq @ routine_define rq @ quirk_section env rq
         @ common_opencl env @ concat (source rq)
   \<and> (sublist mad_define (quirk_section env rq) \<longleftrightarrow> IsAMD dev \<and> IsGPU dev)
   \<and> (sublist staggered_define (quirk_section env rq) \<longleftrightarrow> IsAMD dev \<and> IsGPU dev)
   \<and> (sublist fence_define (quirk_section env rq) \<longleftrightarrow> IsARM dev \<and> IsGPU dev)
   \<and> (\<not> sublist mad_define others \<longrightarrow>
        (sublist mad_define (assemble_source env rq) \<longleftrightarrow> IsAMD dev \<and> IsGPU dev))
   \<and> (\<not> sublist staggered_define others \<longrightarrow>
        (sublist staggered_define (assemble_source env rq) \<longleftrightarrow> IsAMD dev \<and> IsGPU dev))
   \<and> (\<not> sublist fence_define others \<longrightarrow>
        (sublist fence_define (assemble_source env rq) \<longleftrightarrow> IsARM dev \<and> IsGPU dev))"
proof -
  have in_section:
    "sublist mad_define (device_quirk_defines (queue_device rq))
       \<longleftrightarrow> IsAMD (queue_device rq) \<and> IsGPU (queue_device rq)"
    "sublist staggered_define (device_quirk_defines (queue_device rq))
       \<longleftrightarrow> IsAMD (queue_device rq) \<and> IsGPU (queue_device rq)"
    "sublist fence_define (device_quirk_defines (queue_device rq))
       \<longleftrightarrow> IsARM (queue_device rq) \<and> IsGPU (queue_device rq)"
    by (simp_all add: device_quirk_defines_def sublist_quirks del: sublist_Nil_right)
  have split: "assemble_source env rq =
       db_defines rq @ precision_define env rq @ routine_define rq @ quirk_section env rq
         @ common_opencl env @ concat (source rq)"
    by (simp add: quirk_section_eq assemble_source_in_order source_in_spec_order_def)
  show ?thesis
    unfolding dev_def others_def
    using split in_section sublist_source_iff_section [of _ rq env]
    by (simp add: quirk_section_eq)
qed

theorem quirk_defines_iff_device_predicate_witness:
  "IsAMD (queue_device (gemm_request 1 amd_gpu kSingle))
   \<and> IsGPU (queue_device (gemm_request 1 amd_gpu kSingle))
   \<and> \<not> IsAMD (queue_device (gemm_request 1 generic_gpu kSingle))
   \<and> sublist mad_define (quirk_section example_env (gemm_request 1 amd_gpu kSingle))
   \<and> sublist mad_define (assemble_source example_env (gemm_request 1 amd_gpu kSingle))
   \<and> \<not> sublist mad_define (assemble_source example_env (gemm_request 1 generic_gpu kSingle))
   \<and> \<not> sublist fence_define (quirk_section example_env (gemm_request 1 amd_gpu kSingle))"
proof -
  let ?a = "gemm_request 1 amd_gpu kSingle" and ?g = "gemm_request 1 generic_gpu kSingle"
  let ?others = "''D;'' @ (''#define PRECISION 32'' @ [CHR 0x0A])
        @ (''#define ROUTINE_GEMM'' @ [CHR 0x0A]) @ ''H;'' @ ''a;b;''"
  have oa: "db_defines ?a @ precision_define example_env ?a @ routine_define ?a
              @ common_opencl example_env @ concat (source ?a) = ?others"
    by (simp add: precision_define_def routine_define_def example_defs amd_gpu_def
        ToString_def nat_digits.simps)
  have og: "db_defines ?g @ precision_define example_env ?g @ routine_define ?g
              @ common_opencl example_env @ concat (source ?g) = ?others"
    by (simp add: precision_define_def routine_define_def example_defs ToString_def
        nat_digits.simps)
  have n: "\<not> sublist mad_define ?others"
    by code_simp
  have flags: "IsAMD (queue_device ?a)" "IsGPU (queue_device ?a)" "\<not> IsARM (queue_device ?a)"
    "\<not> IsAMD (queue_device ?g)"
    by (simp_all add: example_defs amd_gpu_def)
  from quirk_defines_iff_device_predicate [of example_env ?a] flags n
  have a: "sublist mad_define (quirk_section example_env ?a)"
    "sublist mad_define (assemble_source example_env ?a)"
    "\<not> sublist fence_define (quirk_section example_env ?a)"
    unfolding oa by blast+
  from quirk_defines_iff_device_predicate [of example_env ?g] flags n
  have g: "\<not> sublist mad_define (assemble_source example_env ?g)"
    unfolding og by blast
  from a g flags show ?thesis by blast
qed

text \<open>
  C9: two runs of the source assembly that agree on the routine name, the precision (and
  its integer value), the three device predicates, the database defines, the common
  header and the fragments yield the same text, whatever the contexts, the device names,
  the extension strings, the build options, the back ends and the cache states are; so
  any source compiled in one run equals any source compiled in the other.
\<close>

theorem source_assembly_deterministic:
  assumes "routine_name rq1 = routine_name rq2" and "precision rq1 = precision rq2"
    and "IsAMD (queue_device rq1) = IsAMD (queue_device rq2)"
    and "IsARM (queue_device rq1) = IsARM (queue_device rq2)"
    and "IsGPU (queue_device rq1) = IsGPU (queue_device rq2)"
    and "db_defines rq1 = db_defines rq2"
    and "common_opencl env1 = common_opencl env2"
    and "source rq1 = source rq2"
    and "precision_int env1 = precision_int env2"
  shows "assemble_source env1 rq1 = assemble_source env2 rq2
     \<and> (\<forall>c1 src1 c2 src2.
          CreateProgramWithSource c1 src1 \<in> set (new_calls env1 be1 rq1 s1)
          \<and> CreateProgramWithSource c2 src2 \<in> set (new_calls env2 be2 rq2 s2)
          \<longrightarrow> src1 = src2)"
proof -
  have "assemble_source env1 rq1 = assemble_source env2 rq2"
    using assms
    by (simp add: assemble_source_in_order source_in_spec_order_def precision_define_def
        routine_define_def device_quirk_defines_def)
  then show ?thesis
    using Routine_sources by metis
qed

theorem source_assembly_deterministic_witness:
  "routine_name (gemm_request 1 generic_gpu kSingle) = routine_name (gemm_request 2 other_gpu kSingle)
   \<and> Name (queue_device (gemm_request 1 generic_gpu kSingle))
        \<noteq> Name (queue_device (gemm_request 2 other_gpu kSingle))
   \<and> CLBLAST_BUILD_OPTIONS example_env \<noteq> CLBLAST_BUILD_OPTIONS env_with_options
   \<and> assemble_source example_env (gemm_request 1 generic_gpu kSingle)
        = assemble_source env_with_options (gemm_request 2 other_gpu kSingle)
   \<and> CreateProgramWithSource 1 plain_gemm_source
        \<in> set (new_calls example_env backend_ok (gemm_request 1 generic_gpu kSingle) empty_state)
   \<and> CreateProgramWithSource 2 plain_gemm_source
        \<in> set (new_calls env_with_options backend_build_fails (gemm_request 2 other_gpu kSingle)
                 state_with_binary)"
proof -
  let ?rq1 = "gemm_request 1 generic_gpu kSingle" and ?rq2 = "gemm_request 2 other_gpu kSingle"
  have c1: "CreateProgramWithSource 1 plain_gemm_source
        \<in> set (new_calls example_env backend_ok ?rq1 empty_state)"
    by (simp add: eval_defs other_gpu_def env_with_options_def)
  have c2: "CreateProgramWithSource 2 plain_gemm_source
        \<in> set (new_calls env_with_options backend_build_fails ?rq2 state_with_binary)"
    by (simp add: eval_defs other_gpu_def env_with_options_def)
  have h: "routine_name ?rq1 = routine_name ?rq2" "precision ?rq1 = precision ?rq2"
    "IsAMD (queue_device ?rq1) = IsAMD (queue_device ?rq2)"
    "IsARM (queue_device ?rq1) = IsARM (queue_device ?rq2)"
    "IsGPU (queue_device ?rq1) = IsGPU (queue_device ?rq2)"
    "db_defines ?rq1 = db_defines ?rq2"
    "common_opencl example_env = common_opencl env_with_options"
    "source ?rq1 = source ?rq2"
    "precision_int example_env = precision_int env_with_options"
    by (simp_all add: example_defs other_gpu_def env_with_options_def)
  from source_assembly_deterministic [OF h, of backend_ok empty_state backend_build_fails
         state_with_binary] c1 c2
  show ?thesis
    by (simp add: example_defs other_gpu_def env_with_options_def)
qed

end
